theory Spec2Isabelle
  imports Complex_Main
begin

section \<open>The PV inverter bridge: MQTT measurements republished on D-Bus\<close>

text \<open>
  The repository holds two variants of one program: \<^verbatim>\<open>pvinverter_new.py\<close> (the original,
  module-level globals and plain callbacks) and \<^verbatim>\<open>pvinverter_new_refactored_untested.py\<close>
  (the refactored one: \<^verbatim>\<open>MQTTDataStore\<close>, \<^verbatim>\<open>MQTTClient\<close>, \<^verbatim>\<open>DbusPVInverter\<close>).
  Definitions of the refactored variant keep the source's names; those of the original
  carry the suffix \<open>_orig\<close>.

  Numbers. A Python \<^verbatim>\<open>int\<close> or finite \<^verbatim>\<open>float\<close> is modelled by the real number it
  denotes, and arithmetic is exact: the rounding of a result to double precision, and the
  values \<^verbatim>\<open>inf\<close> and \<^verbatim>\<open>nan\<close>, are outside the model. Where the code is evaluated at
  concrete numbers below, the operands and the results are doubles (integers below
  \<open>2^53\<close>, halves and quarters), so that the exact result is the one Python computes.
\<close>

subsection \<open>Configuration (\<^verbatim>\<open>CONFIG\<close>)\<close>

definition initial_energy_offset :: real where
  "initial_energy_offset = 73311"

definition reconnect_delay_floor :: real where
  \<comment> \<open>\<^verbatim>\<open>CONFIG['reconnect_delay']\<close>\<close>
  "reconnect_delay_floor = 5"

definition max_reconnect_delay :: real where
  "max_reconnect_delay = 300"

subsection \<open>Exceptions and the outcome of a call\<close>

datatype py_error =
    UnicodeDecodeError
  | ValueError
  | KeyError
  | TypeError
  | DBusException

text \<open>A call either returns a value or raises.\<close>

datatype 'a outcome = Returns 'a | Raises py_error

text \<open>
  The log keeps the records of level ERROR (the ones \<^verbatim>\<open>logger.error\<close> emits), each named
  by the constant part of its message.
\<close>

datatype log_record = Error_rec string

subsection \<open>The measurement store (\<^verbatim>\<open>MQTTDataStore\<close>; the original's module globals)\<close>

record store =
  pow_ges :: real
  e_today :: real
  e_total :: real
  pow_l1 :: real
  pow_l2 :: real
  pow_l3 :: real
  connected :: bool

definition init_store :: store where
  \<comment> \<open>\<^verbatim>\<open>MQTTDataStore.__init__\<close>\<close>
  "init_store =
     \<lparr>pow_ges = 0, e_today = 0, e_total = initial_energy_offset * 10000,
      pow_l1 = 0, pow_l2 = 0, pow_l3 = 0, connected = False\<rparr>"

definition init_store_orig :: store where
  \<comment> \<open>the globals \<^verbatim>\<open>pow_ges\<close>, \<^verbatim>\<open>e_today\<close>, \<^verbatim>\<open>e_total\<close>, \<^verbatim>\<open>pow_l1..3\<close> and \<^verbatim>\<open>verbunden\<close>
      of the original, lines 33 to 48\<close>
  "init_store_orig =
     \<lparr>pow_ges = 0, e_today = 0, e_total = 73311 * 10000,
      pow_l1 = 0, pow_l2 = 0, pow_l3 = 0, connected = False\<rparr>"

definition get_all :: "store \<Rightarrow> store" where
  \<comment> \<open>the snapshot: a copy of every field\<close>
  "get_all st =
     \<lparr>pow_ges = pow_ges st, e_today = e_today st, e_total = e_total st,
      pow_l1 = pow_l1 st, pow_l2 = pow_l2 st, pow_l3 = pow_l3 st,
      connected = connected st\<rparr>"

definition set_connected :: "store \<Rightarrow> bool \<Rightarrow> store" where
  "set_connected st state = st\<lparr>connected := state\<rparr>"

subsection \<open>The derived energy of the publish cycle\<close>

definition e_totkwh :: "store \<Rightarrow> real" where
  \<comment> \<open>\<^verbatim>\<open>(data['e_total'] / 10000.0) - CONFIG['initial_energy_offset']\<close>\<close>
  "e_totkwh data = e_total data / 10000 - initial_energy_offset"

definition e_totkwh_orig :: "store \<Rightarrow> real" where
  \<comment> \<open>\<^verbatim>\<open>e_total/10000 - 73311\<close>\<close>
  "e_totkwh_orig g = e_total g / 10000 - 73311"

subsection \<open>Python's text primitives\<close>

text \<open>
  A payload is a byte string. A Python \<^verbatim>\<open>str\<close> is represented by its UTF-8 encoding, so
  that \<^verbatim>\<open>payload.decode("utf-8")\<close> is the identity on the well-formed byte strings and
  raises \<^verbatim>\<open>UnicodeDecodeError\<close> on the others. The comma and the white space characters
  are never part of the encoding of another character, so that splitting and stripping
  work on the bytes.
\<close>

definition byte :: "char \<Rightarrow> nat" where
  "byte c = of_char c"

definition cont_byte :: "char \<Rightarrow> bool" where
  "cont_byte c = (128 \<le> byte c \<and> byte c \<le> 191)"

definition second_of3 :: "char \<Rightarrow> char \<Rightarrow> bool" where
  \<comment> \<open>no overlong form (lead \<open>E0\<close>), nothing from \<open>U+D800\<close> to \<open>U+DFFF\<close> (lead \<open>ED\<close>)\<close>
  "second_of3 a b =
     (if byte a = 224 then 160 \<le> byte b \<and> byte b \<le> 191
      else if byte a = 237 then 128 \<le> byte b \<and> byte b \<le> 159
      else cont_byte b)"

definition second_of4 :: "char \<Rightarrow> char \<Rightarrow> bool" where
  \<comment> \<open>no overlong form (lead \<open>F0\<close>) and nothing above \<open>U+10FFFF\<close> (lead \<open>F4\<close>)\<close>
  "second_of4 a b =
     (if byte a = 240 then 144 \<le> byte b \<and> byte b \<le> 191
      else if byte a = 244 then 128 \<le> byte b \<and> byte b \<le> 143
      else cont_byte b)"

fun utf8_valid :: "string \<Rightarrow> bool" where
  "utf8_valid [] = True"
| "utf8_valid (a # bs) =
     (if byte a < 128 then utf8_valid bs
      else if 194 \<le> byte a \<and> byte a \<le> 223 then
        (case bs of b # r \<Rightarrow> cont_byte b \<and> utf8_valid r | _ \<Rightarrow> False)
      else if 224 \<le> byte a \<and> byte a \<le> 239 then
        (case bs of b # c # r \<Rightarrow> second_of3 a b \<and> cont_byte c \<and> utf8_valid r
         | _ \<Rightarrow> False)
      else if 240 \<le> byte a \<and> byte a \<le> 244 then
        (case bs of b # c # d # r \<Rightarrow>
           second_of4 a b \<and> cont_byte c \<and> cont_byte d \<and> utf8_valid r
         | _ \<Rightarrow> False)
      else False)"

definition decode_utf8 :: "string \<Rightarrow> string option" where
  \<comment> \<open>\<^verbatim>\<open>payload.decode("utf-8")\<close>; \<open>None\<close> is \<^verbatim>\<open>UnicodeDecodeError\<close>\<close>
  "decode_utf8 payload = (if utf8_valid payload then Some payload else None)"

text \<open>
  \<^verbatim>\<open>str.strip()\<close> removes the characters of \<^verbatim>\<open>str.isspace\<close> from both ends:
  \<open>U+0009..U+000D\<close>, \<open>U+001C..U+0020\<close>, \<open>U+0085\<close>, \<open>U+00A0\<close>, \<open>U+1680\<close>,
  \<open>U+2000..U+200A\<close>, \<open>U+2028\<close>, \<open>U+2029\<close>, \<open>U+202F\<close>, \<open>U+205F\<close> and \<open>U+3000\<close>.
  \<open>is_space\<close> recognises the encoding of one of them.
\<close>

fun is_space :: "nat list \<Rightarrow> bool" where
  "is_space [a] = (9 \<le> a \<and> a \<le> 13 \<or> 28 \<le> a \<and> a \<le> 32)"
| "is_space [a, b] = (a = 194 \<and> (b = 133 \<or> b = 160))"
| "is_space [a, b, c] =
     (a = 225 \<and> b = 154 \<and> c = 128
      \<or> a = 226 \<and> b = 128 \<and> (128 \<le> c \<and> c \<le> 138 \<or> c = 168 \<or> c = 169 \<or> c = 175)
      \<or> a = 226 \<and> b = 129 \<and> c = 159
      \<or> a = 227 \<and> b = 128 \<and> c = 128)"
| "is_space _ = False"

definition space_prefix :: "string \<Rightarrow> nat" where
  \<comment> \<open>the number of bytes of the white space character the text starts with, or 0\<close>
  "space_prefix s =
     (if is_space (map byte (take 1 s)) then 1
      else if is_space (map byte (take 2 s)) then 2
      else if is_space (map byte (take 3 s)) then 3
      else 0)"

definition space_suffix :: "string \<Rightarrow> nat" where
  \<comment> \<open>the number of bytes of the white space character the text ends with, or 0\<close>
  "space_suffix s =
     (if is_space (map byte (drop (length s - 1) s)) then 1
      else if is_space (map byte (drop (length s - 2) s)) then 2
      else if is_space (map byte (drop (length s - 3) s)) then 3
      else 0)"

function lstrip :: "string \<Rightarrow> string" where
  "lstrip s = (if s \<noteq> [] \<and> 0 < space_prefix s then lstrip (drop (space_prefix s) s) else s)"
  by pat_completeness auto
termination
  by (relation "measure length") auto

function rstrip :: "string \<Rightarrow> string" where
  "rstrip s =
     (if s \<noteq> [] \<and> 0 < space_suffix s then rstrip (take (length s - space_suffix s) s)
      else s)"
  by pat_completeness auto
termination
  by (relation "measure length") auto

definition strip :: "string \<Rightarrow> string" where
  "strip s = rstrip (lstrip s)"

fun split_comma :: "string \<Rightarrow> string list" where
  \<comment> \<open>\<^verbatim>\<open>msg.split(",")\<close>: one part more than there are commas\<close>
  "split_comma [] = [[]]"
| "split_comma (c # cs) =
     (if c = CHR '','' then [] # split_comma cs
      else (case split_comma cs of p # ps \<Rightarrow> (c # p) # ps | [] \<Rightarrow> [[c]]))"

text \<open>
  \<^verbatim>\<open>float(text)\<close> is a parameter \<open>fl\<close> of every handler below: \<open>fl text = None\<close> when
  \<^verbatim>\<open>float\<close> raises \<^verbatim>\<open>ValueError\<close>, and \<open>Some x\<close> when it returns \<open>x\<close>. The statements
  about all payloads hold for every such function. Where a handler is evaluated at a
  concrete payload, \<open>float_plain\<close> is used: it is \<^verbatim>\<open>float\<close> on the plain decimal literals
  (white space around, a sign, digits, a point) and on the texts without a digit that are
  not a spelling of infinity or of not-a-number. The other forms that \<^verbatim>\<open>float\<close> accepts
  (an exponent, underscores between digits, digits beyond ASCII) occur in no payload used
  below.
\<close>

definition digit_val :: "char \<Rightarrow> nat option" where
  "digit_val c = (if 48 \<le> byte c \<and> byte c \<le> 57 then Some (byte c - 48) else None)"

fun digits_val :: "string \<Rightarrow> nat \<Rightarrow> nat option" where
  "digits_val [] acc = Some acc"
| "digits_val (c # cs) acc =
     (case digit_val c of None \<Rightarrow> None | Some d \<Rightarrow> digits_val cs (10 * acc + d))"

definition unsigned_plain :: "string \<Rightarrow> real option" where
  "unsigned_plain s =
     (let ip = takeWhile (\<lambda>c. c \<noteq> CHR ''.'') s;
          rest = dropWhile (\<lambda>c. c \<noteq> CHR ''.'') s
      in case rest of
           [] \<Rightarrow> (if ip = [] then None else map_option real (digits_val ip 0))
         | _ # fp \<Rightarrow>
             (if ip = [] \<and> fp = [] then None
              else (case (digits_val ip 0, digits_val fp 0) of
                      (Some i, Some f) \<Rightarrow> Some (real i + real f / 10 ^ length fp)
                    | _ \<Rightarrow> None)))"

definition float_plain :: "string \<Rightarrow> real option" where
  "float_plain text =
     (case strip text of
        [] \<Rightarrow> None
      | c # r \<Rightarrow>
          if c = CHR ''-'' then map_option uminus (unsigned_plain r)
          else if c = CHR ''+'' then unsigned_plain r
          else unsigned_plain (c # r))"

subsection \<open>The setters of the store\<close>

text \<open>
  The client hands the text of the message to the setter, and the setter converts it
  (\<^verbatim>\<open>self.pow_ges = float(value)\<close>). A setter returns the exception it raised, if any,
  and the store as it is when the setter is left: an assignment made before the exception
  stays.
\<close>

definition update_power :: "(string \<Rightarrow> real option) \<Rightarrow> store \<Rightarrow> string \<Rightarrow> py_error option \<times> store" where
  "update_power fl st v =
     (case fl v of None \<Rightarrow> (Some ValueError, st) | Some x \<Rightarrow> (None, st\<lparr>pow_ges := x\<rparr>))"

definition update_energy_today :: "(string \<Rightarrow> real option) \<Rightarrow> store \<Rightarrow> string \<Rightarrow> py_error option \<times> store" where
  "update_energy_today fl st v =
     (case fl v of None \<Rightarrow> (Some ValueError, st) | Some x \<Rightarrow> (None, st\<lparr>e_today := x\<rparr>))"

definition update_energy_total :: "(string \<Rightarrow> real option) \<Rightarrow> store \<Rightarrow> string \<Rightarrow> py_error option \<times> store" where
  "update_energy_total fl st v =
     (case fl v of None \<Rightarrow> (Some ValueError, st) | Some x \<Rightarrow> (None, st\<lparr>e_total := x\<rparr>))"

definition update_phase_powers ::
  "(string \<Rightarrow> real option) \<Rightarrow> store \<Rightarrow> string \<Rightarrow> string \<Rightarrow> string \<Rightarrow> py_error option \<times> store" where
  \<comment> \<open>three assignments in a row, each after its own conversion\<close>
  "update_phase_powers fl st l1 l2 l3 =
     (case fl l1 of
        None \<Rightarrow> (Some ValueError, st)
      | Some a \<Rightarrow>
          (case fl l2 of
             None \<Rightarrow> (Some ValueError, st\<lparr>pow_l1 := a\<rparr>)
           | Some b \<Rightarrow>
               (case fl l3 of
                  None \<Rightarrow> (Some ValueError, st\<lparr>pow_l1 := a, pow_l2 := b\<rparr>)
                | Some c \<Rightarrow> (None, st\<lparr>pow_l1 := a, pow_l2 := b, pow_l3 := c\<rparr>))))"

subsection \<open>The message handler of the refactored variant (\<^verbatim>\<open>MQTTClient._on_message\<close>)\<close>

definition is_ValueError :: "py_error \<Rightarrow> bool" where
  \<comment> \<open>what \<^verbatim>\<open>except ValueError\<close> catches: \<^verbatim>\<open>UnicodeDecodeError\<close> is a subclass\<close>
  "is_ValueError e = (e = ValueError \<or> e = UnicodeDecodeError)"

definition on_message_try ::
  "(string \<Rightarrow> real option) \<Rightarrow> store \<Rightarrow> string \<Rightarrow> string
     \<Rightarrow> py_error option \<times> store \<times> log_record list" where
  \<comment> \<open>the body of the outer \<^verbatim>\<open>try\<close>, lines 184 to 206\<close>
  "on_message_try fl st topic payload =
     (case decode_utf8 payload of
        None \<Rightarrow> (Some UnicodeDecodeError, st, [])
      | Some text \<Rightarrow>
          (let msg = strip text in
           if topic = ''ehzmeter/pvpower'' then
             (case update_power fl st msg of (e, st') \<Rightarrow> (e, st', []))
           else if topic = ''ehzmeter/pvtoday'' then
             (case update_energy_today fl st msg of (e, st') \<Rightarrow> (e, st', []))
           else if topic = ''ehzmeter/pvtotal'' then
             (case update_energy_total fl st msg of (e, st') \<Rightarrow> (e, st', []))
           else if topic = ''ehzmeter/pvpwrl123'' then
             (let parts = split_comma msg in
              if length parts \<noteq> 3 then
                (None, st, [Error_rec ''Invalid pvpwrl123 format''])
              else
                (case update_phase_powers fl st (parts ! 0) (parts ! 1) (parts ! 2) of
                   (None, st') \<Rightarrow> (None, st', [])
                 | (Some e, st') \<Rightarrow>
                     if is_ValueError e
                     then (None, st', [Error_rec ''Failed to parse phase powers''])
                     else (Some e, st', [])))
           else (None, st, [])))"

definition on_message ::
  "(string \<Rightarrow> real option) \<Rightarrow> store \<Rightarrow> string \<Rightarrow> string
     \<Rightarrow> unit outcome \<times> store \<times> log_record list" where
  \<comment> \<open>\<^verbatim>\<open>except Exception\<close> around the whole body: log and return\<close>
  "on_message fl st topic payload =
     (case on_message_try fl st topic payload of
        (None, st', lg) \<Rightarrow> (Returns (), st', lg)
      | (Some e, st', lg) \<Rightarrow>
          (Returns (), st', lg @ [Error_rec ''Error processing MQTT message'']))"

subsection \<open>The message handler of the original variant (\<^verbatim>\<open>on_message\<close>)\<close>

text \<open>
  No \<^verbatim>\<open>try\<close>, no \<^verbatim>\<open>strip\<close>; the payload of \<^verbatim>\<open>pvpwrl123\<close> is unpacked into three names,
  which raises \<^verbatim>\<open>ValueError\<close> unless there are three parts.
\<close>

definition on_message_orig ::
  "(string \<Rightarrow> real option) \<Rightarrow> store \<Rightarrow> string \<Rightarrow> string \<Rightarrow> unit outcome \<times> store" where
  "on_message_orig fl g topic payload =
     (case decode_utf8 payload of
        None \<Rightarrow> (Raises UnicodeDecodeError, g)
      | Some msg \<Rightarrow>
          if topic = ''ehzmeter/pvpower'' then
            (case fl msg of None \<Rightarrow> (Raises ValueError, g)
             | Some x \<Rightarrow> (Returns (), g\<lparr>pow_ges := x\<rparr>))
          else if topic = ''ehzmeter/pvtoday'' then
            (case fl msg of None \<Rightarrow> (Raises ValueError, g)
             | Some x \<Rightarrow> (Returns (), g\<lparr>e_today := x\<rparr>))
          else if topic = ''ehzmeter/pvtotal'' then
            (case fl msg of None \<Rightarrow> (Raises ValueError, g)
             | Some x \<Rightarrow> (Returns (), g\<lparr>e_total := x\<rparr>))
          else if topic = ''ehzmeter/pvpwrl123'' then
            (let parts = split_comma msg in
             if length parts \<noteq> 3 then (Raises ValueError, g)
             else
               (case fl (parts ! 0) of
                  None \<Rightarrow> (Raises ValueError, g)
                | Some a \<Rightarrow>
                    (case fl (parts ! 1) of
                       None \<Rightarrow> (Raises ValueError, g\<lparr>pow_l1 := a\<rparr>)
                     | Some b \<Rightarrow>
                         (case fl (parts ! 2) of
                            None \<Rightarrow> (Raises ValueError, g\<lparr>pow_l1 := a, pow_l2 := b\<rparr>)
                          | Some c \<Rightarrow>
                              (Returns (), g\<lparr>pow_l1 := a, pow_l2 := b, pow_l3 := c\<rparr>)))))
          else (Returns (), g))"

subsection \<open>The downstream sink (\<^verbatim>\<open>VeDbusService\<close>)\<close>

text \<open>
  The sink maps the registered paths to their values. Writing a path that is not
  registered raises \<^verbatim>\<open>KeyError\<close>; the bus itself may refuse a write, and \<open>bad\<close> is the
  set of the paths it refuses. A write that fails leaves the sink as it was.
\<close>

datatype dbus_value = Num real | Text string

type_synonym sink = "string \<Rightarrow> dbus_value option"

definition sink_set ::
  "string set \<Rightarrow> sink \<Rightarrow> string \<Rightarrow> dbus_value \<Rightarrow> py_error option \<times> sink" where
  \<comment> \<open>\<^verbatim>\<open>self._dbusservice[path] = value\<close>\<close>
  "sink_set bad k path v =
     (if k path = None then (Some KeyError, k)
      else if path \<in> bad then (Some DBusException, k)
      else (None, k(path \<mapsto> v)))"

fun write_seq ::
  "string set \<Rightarrow> sink \<Rightarrow> (string \<times> dbus_value) list \<Rightarrow> py_error option \<times> sink" where
  \<comment> \<open>assignments one after the other; the first exception ends the sequence\<close>
  "write_seq bad k [] = (None, k)"
| "write_seq bad k ((path, v) # ws) =
     (case sink_set bad k path v of
        (Some e, k') \<Rightarrow> (Some e, k')
      | (None, k') \<Rightarrow> write_seq bad k' ws)"

text \<open>
  Two notions to speak about a sequence of writes: a path is \<open>writable\<close> when assigning it
  succeeds, and \<open>written k ws\<close> is the sink \<open>k\<close> after all the assignments \<open>ws\<close> have been
  made.
\<close>

definition writable :: "string set \<Rightarrow> sink \<Rightarrow> string \<Rightarrow> bool" where
  "writable bad k path = (k path \<noteq> None \<and> path \<notin> bad)"

fun written :: "sink \<Rightarrow> (string \<times> dbus_value) list \<Rightarrow> sink" where
  "written k [] = k"
| "written k ((path, v) # ws) = written (k(path \<mapsto> v)) ws"

subsection \<open>Rounding\<close>

definition round_half_even :: "real \<Rightarrow> int" where
  "round_half_even x =
     (let f = \<lfloor>x\<rfloor>; d = x - of_int f
      in if d < 1 / 2 then f else if 1 / 2 < d then f + 1
         else if even f then f else f + 1)"

definition py_round :: "real \<Rightarrow> real" where
  \<comment> \<open>\<^verbatim>\<open>round(x)\<close>: the nearest integer, a tie to the even one\<close>
  "py_round x = of_int (round_half_even x)"

definition py_round1 :: "real \<Rightarrow> real" where
  \<comment> \<open>\<^verbatim>\<open>round(x, 1)\<close>: the nearest multiple of one tenth, a tie to the even one\<close>
  "py_round1 x = of_int (round_half_even (x * 10)) / 10"

definition py_mod :: "real \<Rightarrow> real \<Rightarrow> real" where
  \<comment> \<open>\<^verbatim>\<open>x % m\<close> for \<open>m > 0\<close>\<close>
  "py_mod x m = x - m * of_int \<lfloor>x / m\<rfloor>"

subsection \<open>The publish cycle of the refactored variant (\<^verbatim>\<open>DbusPVInverter\<close>)\<close>

definition setup_paths :: sink where
  \<comment> \<open>\<^verbatim>\<open>_setup_paths\<close>; of the two texts computed at run time (\<^verbatim>\<open>__file__\<close> and the
      Python version) the constant part is kept\<close>
  "setup_paths = map_of
     [(''/Mgmt/ProcessName'', Text ''pvinverter_new_refactored_untested.py''),
      (''/Mgmt/ProcessVersion'', Text ''Refactored v1.0, Python ''),
      (''/Mgmt/Connection'', Text ''MQTT''),
      (''/DeviceInstance'', Num 41),
      (''/ProductId'', Num 65535),
      (''/ProductName'', Text ''SMAL1 HM L1 L2 L3''),
      (''/Position'', Num 0),
      (''/FirmwareVersion'', Text ''1.0''),
      (''/HardwareVersion'', Text ''0''),
      (''/Connected'', Num 1),
      (''/Ac/Power'', Num 0),
      (''/Ac/Energy/Forward'', Num 0),
      (''/Ac/L1/Voltage'', Num 230),
      (''/Ac/L1/Current'', Num 0),
      (''/Ac/L1/Power'', Num 0),
      (''/Ac/L1/Energy/Forward'', Num 0),
      (''/Ac/L2/Voltage'', Num 230),
      (''/Ac/L2/Current'', Num 0),
      (''/Ac/L2/Power'', Num 0),
      (''/Ac/L2/Energy/Forward'', Num 0),
      (''/Ac/L3/Voltage'', Num 230),
      (''/Ac/L3/Current'', Num 0),
      (''/Ac/L3/Power'', Num 0),
      (''/Ac/L3/Energy/Forward'', Num 0),
      (''/UpdateIndex'', Num 0)]"

definition phase_writes :: "string \<Rightarrow> real \<Rightarrow> real \<Rightarrow> real \<Rightarrow> (string \<times> dbus_value) list" where
  \<comment> \<open>the body of the loop over the phases, lines 298 to 301: \<open>watts\<close> is \<^verbatim>\<open>power\<close> and
      \<open>share\<close> is \<^verbatim>\<open>energy_dist[phase]\<close>\<close>
  "phase_writes phase watts share e =
     [(''/Ac/'' @ phase @ ''/Current'', Num (py_round1 (watts / 230))),
      (''/Ac/'' @ phase @ ''/Power'', Num (py_round1 watts)),
      (''/Ac/'' @ phase @ ''/Energy/Forward'', Num (py_round1 (e * share)))]"

definition writes :: "store \<Rightarrow> (string \<times> dbus_value) list" where
  \<comment> \<open>the assignments of lines 280 to 301, in the order of the program\<close>
  "writes data =
     [(''/Ac/Power'', Num (py_round1 (pow_ges data))),
      (''/Ac/Energy/Forward'', Num (py_round1 (e_totkwh data)))]
     @ phase_writes ''L1'' (pow_l1 data) (576 / 1000) (e_totkwh data)
     @ phase_writes ''L2'' (pow_l2 data) (212 / 1000) (e_totkwh data)
     @ phase_writes ''L3'' (pow_l3 data) (212 / 1000) (e_totkwh data)"

definition update_index :: "string set \<Rightarrow> sink \<Rightarrow> py_error option \<times> sink" where
  \<comment> \<open>lines 304 and 305\<close>
  "update_index bad k =
     (case k ''/UpdateIndex'' of
        None \<Rightarrow> (Some KeyError, k)
      | Some (Text t) \<Rightarrow> (Some TypeError, k)
      | Some (Num i) \<Rightarrow> sink_set bad k ''/UpdateIndex'' (Num (py_mod (i + 1) 256)))"

definition update_try :: "string set \<Rightarrow> store \<Rightarrow> sink \<Rightarrow> py_error option \<times> sink" where
  \<comment> \<open>the body of the \<^verbatim>\<open>try\<close> of \<^verbatim>\<open>_update\<close>\<close>
  "update_try bad st k =
     (case write_seq bad k (writes (get_all st)) of
        (Some e, k') \<Rightarrow> (Some e, k')
      | (None, k') \<Rightarrow> update_index bad k')"

definition update ::
  "string set \<Rightarrow> store \<Rightarrow> sink \<Rightarrow> bool outcome \<times> sink \<times> log_record list" where
  \<comment> \<open>\<^verbatim>\<open>_update\<close>: \<^verbatim>\<open>return True\<close> at the end of the body and in the handler\<close>
  "update bad st k =
     (case update_try bad st k of
        (None, k') \<Rightarrow> (Returns True, k', [])
      | (Some e, k') \<Rightarrow> (Returns True, k', [Error_rec ''Error updating DBus paths'']))"

subsection \<open>The publish cycle of the original variant (\<^verbatim>\<open>DbusDummyService2\<close>)\<close>

definition paths_orig :: "(string \<times> dbus_value) list" where
  \<comment> \<open>the \<^verbatim>\<open>paths\<close> that \<^verbatim>\<open>main\<close> passes to the service, each with its initial value\<close>
  "paths_orig =
     [(''/Ac/Power'', Num 0),
      (''/Ac/L1/Voltage'', Num 0),
      (''/Ac/L2/Voltage'', Num 0),
      (''/Ac/L3/Voltage'', Num 0),
      (''/Ac/L1/Current'', Num 0),
      (''/Ac/L2/Current'', Num 0),
      (''/Ac/L3/Current'', Num 0),
      (''/Ac/L1/Power'', Num 0),
      (''/Ac/L2/Power'', Num 0),
      (''/Ac/L3/Power'', Num 0),
      (''/Ac/Energy/Forward'', Num 0),
      (''/Ac/L1/Energy/Forward'', Num 0),
      (''/Ac/L2/Energy/Forward'', Num 0),
      (''/Ac/L3/Energy/Forward'', Num 0),
      (''/UpdateIndex'', Num 0)]"

definition setup_paths_orig :: sink where
  \<comment> \<open>\<^verbatim>\<open>DbusDummyService2.__init__\<close>: the management and mandatory paths, then \<^verbatim>\<open>paths\<close>\<close>
  "setup_paths_orig = map_of
     ([(''/Mgmt/ProcessName'', Text ''pvinverter_new.py''),
       (''/Mgmt/ProcessVersion'', Text ''Unkown version, and running on Python ''),
       (''/Mgmt/Connection'', Text ''MQTT''),
       (''/DeviceInstance'', Num 41),
       (''/ProductId'', Num 65535),
       (''/ProductName'', Text ''SMAL1 HM L1 L2 L3''),
       (''/Position'', Num 0),
       (''/FirmwareVersion'', Num (1 / 10)),
       (''/HardwareVersion'', Num 0),
       (''/Connected'', Num 1)]
      @ paths_orig)"

definition writes_orig :: "store \<Rightarrow> (string \<times> dbus_value) list" where
  \<comment> \<open>the assignments of lines 126 to 139\<close>
  "writes_orig g =
     [(''/Ac/Energy/Forward'', Num (py_round1 (e_totkwh_orig g))),
      (''/Ac/L1/Voltage'', Num 230),
      (''/Ac/L2/Voltage'', Num 230),
      (''/Ac/L3/Voltage'', Num 230),
      (''/Ac/L1/Energy/Forward'', Num (py_round1 (e_totkwh_orig g * (576 / 1000)))),
      (''/Ac/L2/Energy/Forward'', Num (py_round1 (e_totkwh_orig g * (212 / 1000)))),
      (''/Ac/L3/Energy/Forward'', Num (py_round1 (e_totkwh_orig g * (212 / 1000)))),
      (''/Ac/L1/Current'', Num (py_round1 (pow_l1 g / 230))),
      (''/Ac/L2/Current'', Num (py_round1 (pow_l2 g / 230))),
      (''/Ac/L3/Current'', Num (py_round1 (pow_l3 g / 230))),
      (''/Ac/L1/Power'', Num (py_round1 (pow_l1 g))),
      (''/Ac/L2/Power'', Num (py_round1 (pow_l2 g))),
      (''/Ac/L3/Power'', Num (py_round1 (pow_l3 g))),
      (''/Ac/Power'', Num (py_round (pow_ges g)))]"

definition update_index_orig :: "string set \<Rightarrow> sink \<Rightarrow> py_error option \<times> sink" where
  \<comment> \<open>lines 145 to 148\<close>
  "update_index_orig bad k =
     (case k ''/UpdateIndex'' of
        None \<Rightarrow> (Some KeyError, k)
      | Some (Text t) \<Rightarrow> (Some TypeError, k)
      | Some (Num i) \<Rightarrow>
          sink_set bad k ''/UpdateIndex'' (Num (if i + 1 > 255 then 0 else i + 1)))"

definition update_orig :: "string set \<Rightarrow> store \<Rightarrow> sink \<Rightarrow> bool outcome \<times> sink" where
  \<comment> \<open>\<^verbatim>\<open>_update\<close> of the original: no \<^verbatim>\<open>try\<close>, an exception leaves the callback\<close>
  "update_orig bad g k =
     (case write_seq bad k (writes_orig g) of
        (Some e, k') \<Rightarrow> (Raises e, k')
      | (None, k') \<Rightarrow>
          (case update_index_orig bad k' of
             (Some e, k'') \<Rightarrow> (Raises e, k'')
           | (None, k'') \<Rightarrow> (Returns True, k'')))"

subsection \<open>Reconnection with backoff (\<^verbatim>\<open>MQTTClient\<close>)\<close>

text \<open>
  \<open>reconnect_timer\<close> holds the delay of the timer armed last, if any: arming a timer
  cancels the one before. \<open>subscriptions\<close> lists the calls of \<^verbatim>\<open>client.subscribe\<close>.
\<close>

record mqtt_client =
  reconnect_delay :: real
  reconnect_timer :: "real option"
  subscriptions :: "string list"

definition init_client :: mqtt_client where
  \<comment> \<open>\<^verbatim>\<open>MQTTClient.__init__\<close>\<close>
  "init_client =
     \<lparr>reconnect_delay = reconnect_delay_floor, reconnect_timer = None, subscriptions = []\<rparr>"

definition schedule_reconnect :: "mqtt_client \<Rightarrow> mqtt_client" where
  \<comment> \<open>\<^verbatim>\<open>_schedule_reconnect\<close>\<close>
  "schedule_reconnect c =
     (let delay = min (reconnect_delay c) max_reconnect_delay
      in c\<lparr>reconnect_timer := Some delay,
            reconnect_delay := min (reconnect_delay c * (15 / 10)) max_reconnect_delay\<rparr>)"

definition connect :: "bool \<Rightarrow> mqtt_client \<Rightarrow> mqtt_client" where
  \<comment> \<open>\<^verbatim>\<open>connect\<close>; \<open>ok\<close> tells whether \<^verbatim>\<open>self.client.connect\<close> returned\<close>
  "connect ok c = (if ok then c else schedule_reconnect c)"

definition on_connect :: "int \<Rightarrow> mqtt_client \<times> store \<Rightarrow> mqtt_client \<times> store" where
  \<comment> \<open>\<^verbatim>\<open>_on_connect\<close>\<close>
  "on_connect rc cs =
     (case cs of (c, st) \<Rightarrow>
        if rc = 0 then
          (c\<lparr>reconnect_delay := reconnect_delay_floor,
             subscriptions := subscriptions c @ [''ehzmeter/#'']\<rparr>,
           set_connected st True)
        else (c, set_connected st False))"

definition on_disconnect :: "int \<Rightarrow> mqtt_client \<times> store \<Rightarrow> mqtt_client \<times> store" where
  \<comment> \<open>\<^verbatim>\<open>_on_disconnect\<close>\<close>
  "on_disconnect rc cs =
     (case cs of (c, st) \<Rightarrow>
        if rc = 0 then (c, set_connected st False)
        else (schedule_reconnect c, set_connected st False))"

subsection \<open>The running application\<close>

text \<open>
  The application holds one store, one client and one sink. What happens to it is a
  sequence of events: the transport's callbacks, a reconnect timer that fires, and the
  ticks of the publish timer, each with the writes the bus refuses during that tick.
\<close>

record app =
  data_store :: store
  mqtt :: mqtt_client
  dbus :: sink
  app_log :: "log_record list"

datatype event =
    Connect_attempt bool
  | Connected_cb int
  | Disconnected_cb int
  | Message_cb string string
  | Tick "string set"

definition init_app :: app where
  \<comment> \<open>\<^verbatim>\<open>Application.__init__\<close> and the construction of the service in \<^verbatim>\<open>start\<close>\<close>
  "init_app =
     \<lparr>data_store = init_store, mqtt = init_client, dbus = setup_paths, app_log = []\<rparr>"

fun step :: "(string \<Rightarrow> real option) \<Rightarrow> app \<Rightarrow> event \<Rightarrow> app" where
  "step fl a (Connect_attempt ok) = a\<lparr>mqtt := connect ok (mqtt a)\<rparr>"
| "step fl a (Connected_cb rc) =
     (case on_connect rc (mqtt a, data_store a) of
        (c, st) \<Rightarrow> a\<lparr>mqtt := c, data_store := st\<rparr>)"
| "step fl a (Disconnected_cb rc) =
     (case on_disconnect rc (mqtt a, data_store a) of
        (c, st) \<Rightarrow> a\<lparr>mqtt := c, data_store := st\<rparr>)"
| "step fl a (Message_cb topic payload) =
     (case on_message fl (data_store a) topic payload of
        (r, st, lg) \<Rightarrow> a\<lparr>data_store := st, app_log := app_log a @ lg\<rparr>)"
| "step fl a (Tick bad) =
     (case update bad (data_store a) (dbus a) of
        (r, k, lg) \<Rightarrow> a\<lparr>dbus := k, app_log := app_log a @ lg\<rparr>)"

definition run :: "(string \<Rightarrow> real option) \<Rightarrow> app \<Rightarrow> event list \<Rightarrow> app" where
  "run fl a evs = foldl (step fl) a evs"

section \<open>Properties\<close>

lemmas config_defs =
  initial_energy_offset_def reconnect_delay_floor_def max_reconnect_delay_def

lemmas text_defs =
  decode_utf8_def strip_def space_prefix_def space_suffix_def byte_def

lemmas float_plain_defs = float_plain_def unsigned_plain_def digit_val_def

subsection \<open>What a publish cycle leaves alone\<close>

text \<open>
  A write changes the path written and no other; it never registers or removes a path.
  The cycle writes the paths listed in \<open>writes\<close> and \<^verbatim>\<open>/UpdateIndex\<close>.
\<close>

lemma sink_set_other: "p \<noteq> path \<Longrightarrow> snd (sink_set bad k path v) p = k p"
  by (simp add: sink_set_def)


lemma write_seq_other: "p \<notin> fst ` set ws \<Longrightarrow> snd (write_seq bad k ws) p = k p"
proof (induction ws arbitrary: k)
  case Nil
  then show ?case by simp
next
  case (Cons w ws)
  obtain path v where w: "w = (path, v)" by (cases w)
  from Cons.prems w have ne: "p \<noteq> path" and rest: "p \<notin> fst ` set ws" by auto
  show ?case
  proof (cases "sink_set bad k path v")
    case (Pair e k')
    with sink_set_other [OF ne, of bad k v] have k': "k' p = k p" by simp
    show ?thesis
    proof (cases e)
      case None
      with Pair w k' Cons.IH [OF rest, of k'] show ?thesis by simp
    next
      case (Some err)
      with Pair w k' show ?thesis by simp
    qed
  qed
qed


lemma writes_paths:
  "fst ` set (writes d) =
     {''/Ac/Power'', ''/Ac/Energy/Forward'',
      ''/Ac/L1/Current'', ''/Ac/L1/Power'', ''/Ac/L1/Energy/Forward'',
      ''/Ac/L2/Current'', ''/Ac/L2/Power'', ''/Ac/L2/Energy/Forward'',
      ''/Ac/L3/Current'', ''/Ac/L3/Power'', ''/Ac/L3/Energy/Forward''}"
  by (auto simp add: writes_def phase_writes_def)

lemma writes_orig_paths:
  "fst ` set (writes_orig d) =
     {''/Ac/Power'', ''/Ac/Energy/Forward'',
      ''/Ac/L1/Voltage'', ''/Ac/L2/Voltage'', ''/Ac/L3/Voltage'',
      ''/Ac/L1/Current'', ''/Ac/L1/Power'', ''/Ac/L1/Energy/Forward'',
      ''/Ac/L2/Current'', ''/Ac/L2/Power'', ''/Ac/L2/Energy/Forward'',
      ''/Ac/L3/Current'', ''/Ac/L3/Power'', ''/Ac/L3/Energy/Forward''}"
  by (auto simp add: writes_orig_def)

lemma update_index_other: "p \<noteq> ''/UpdateIndex'' \<Longrightarrow> snd (update_index bad k) p = k p"
  by (simp add: update_index_def sink_set_def split: option.splits dbus_value.splits)

lemma update_index_orig_other: "p \<noteq> ''/UpdateIndex'' \<Longrightarrow> snd (update_index_orig bad k) p = k p"
  by (simp add: update_index_orig_def sink_set_def split: option.splits dbus_value.splits)

lemma update_try_other:
  assumes "p \<notin> fst ` set (writes (get_all st))" and "p \<noteq> ''/UpdateIndex''"
  shows "snd (update_try bad st k) p = k p"
proof (cases "write_seq bad k (writes (get_all st))")
  case (Pair e k')
  with write_seq_other [OF assms(1), of bad k] have k': "k' p = k p" by simp
  show ?thesis
  proof (cases e)
    case None
    with Pair k' update_index_other [OF assms(2), of bad k'] show ?thesis
      by (simp add: update_try_def)
  next
    case (Some err)
    with Pair k' show ?thesis by (simp add: update_try_def)
  qed
qed

lemma update_sink: "fst (snd (update bad st k)) = snd (update_try bad st k)"
  by (simp add: update_def split: prod.splits option.splits)

lemma update_orig_other:
  assumes "p \<notin> fst ` set (writes_orig g)" and "p \<noteq> ''/UpdateIndex''"
  shows "snd (update_orig bad g k) p = k p"
proof (cases "write_seq bad k (writes_orig g)")
  case (Pair e k')
  with write_seq_other [OF assms(1), of bad k] have k': "k' p = k p" by simp
  show ?thesis
  proof (cases e)
    case None
    with Pair k' update_index_orig_other [OF assms(2), of bad k'] show ?thesis
      by (auto simp add: update_orig_def split: prod.splits option.splits)
  next
    case (Some err)
    with Pair k' show ?thesis by (simp add: update_orig_def)
  qed
qed


subsection \<open>The store at construction\<close>

text \<open>
  Claim C8. At construction every measurement field of the store is zero and
  \<open>connected\<close> is false, except \<open>e_total\<close>, which holds \<open>73311 * 10000 = 733110000\<close>; the
  net energy derived from that snapshot is 0, and 0 is what the first publish cycle writes
  to \<^verbatim>\<open>/Ac/Energy/Forward\<close>. The globals of the original variant start with the same
  values.
\<close>

theorem store_initial_values:
  "pow_ges init_store = 0 \<and> e_today init_store = 0
   \<and> pow_l1 init_store = 0 \<and> pow_l2 init_store = 0 \<and> pow_l3 init_store = 0
   \<and> connected init_store = False
   \<and> e_total init_store = initial_energy_offset * 10000
   \<and> e_total init_store = 733110000
   \<and> e_totkwh (get_all init_store) = 0
   \<and> map_of (writes (get_all init_store)) ''/Ac/Energy/Forward'' = Some (Num 0)
   \<and> init_store_orig = init_store
   \<and> e_totkwh_orig init_store_orig = 0"
  by (simp add: init_store_def init_store_orig_def get_all_def e_totkwh_def
      e_totkwh_orig_def writes_def py_round1_def round_half_even_def config_defs)

subsection \<open>The net energy\<close>

text \<open>
  Claim C2, as stated, fails: with the offset 73311 the raw total 733120000 gives the net
  energy 1, not one tenth.
\<close>

theorem net_energy_733120000_is_not_a_tenth:
  "e_totkwh (init_store\<lparr>e_total := 733120000\<rparr>) \<noteq> 1 / 10
   \<and> e_totkwh_orig (init_store_orig\<lparr>e_total := 733120000\<rparr>) \<noteq> 1 / 10"
  by (simp add: e_totkwh_def e_totkwh_orig_def config_defs)

text \<open>
  Claim C2, amended. With the offset 73311, the net energy of the publish cycle is exactly
  0 when the raw total is 733110000 and exactly 1 when it is 733120000, in both variants
  and whatever the other fields of the snapshot are.
\<close>

theorem net_energy_examples:
  "e_totkwh (st\<lparr>e_total := 733110000\<rparr>) = 0
   \<and> e_totkwh (st\<lparr>e_total := 733120000\<rparr>) = 1
   \<and> e_totkwh_orig (st\<lparr>e_total := 733110000\<rparr>) = 0
   \<and> e_totkwh_orig (st\<lparr>e_total := 733120000\<rparr>) = 1"
  by (simp add: e_totkwh_def e_totkwh_orig_def config_defs)

subsection \<open>Backoff\<close>

text \<open>
  Claim C5. With the floor 5, the factor 1.5 and the ceiling 300, three calls of
  \<open>schedule_reconnect\<close> in a row, from the client as constructed, arm timers of 5, 7.5
  and 11.25; every timer armed, from any state of the client, is at most 300; and after
  \<open>on_connect\<close> with the result code 0, from any state, the next timer armed is 5 again.
\<close>

theorem backoff_delays:
  "reconnect_timer (schedule_reconnect init_client) = Some 5
   \<and> reconnect_timer (schedule_reconnect (schedule_reconnect init_client)) = Some (75 / 10)
   \<and> reconnect_timer
        (schedule_reconnect (schedule_reconnect (schedule_reconnect init_client)))
      = Some (1125 / 100)
   \<and> (\<exists>d. reconnect_timer (schedule_reconnect c) = Some d \<and> d \<le> max_reconnect_delay)
   \<and> reconnect_timer (schedule_reconnect (fst (on_connect 0 (c, st)))) = Some 5"
  by (simp add: schedule_reconnect_def init_client_def on_connect_def config_defs Let_def)

subsection \<open>The path \<^verbatim>\<open>/Connected\<close>\<close>

lemma step_tick_dbus:
  "dbus (step fl a (Tick bad)) = snd (update_try bad (data_store a) (dbus a))"
  by (simp add: update_def split: prod.splits option.splits)

lemma step_connected_path: "dbus (step fl a ev) ''/Connected'' = dbus a ''/Connected''"
proof (cases ev)
  case (Tick bad)
  have "''/Connected'' \<notin> fst ` set (writes (get_all (data_store a)))"
    by (simp add: writes_paths)
  then have "snd (update_try bad (data_store a) (dbus a)) ''/Connected'' = dbus a ''/Connected''"
    by (rule update_try_other) simp
  with Tick show ?thesis
    by (simp only: step_tick_dbus)
qed (simp_all split: prod.splits)

lemma run_connected_path: "dbus (run fl a evs) ''/Connected'' = dbus a ''/Connected''"
  unfolding run_def
  by (induction evs arbitrary: a) (simp_all add: step_connected_path)

text \<open>
  Claim C10. \<^verbatim>\<open>/Connected\<close> is registered with the value 1 when the service is
  constructed, in both variants. No publish cycle changes it, whatever the store, the sink
  and the writes refused; the connection callbacks leave the whole sink alone, and
  \<open>set_connected\<close> changes the field \<open>connected\<close> of the store and nothing else. So, after
  any sequence of events, the sink still shows 1 at \<^verbatim>\<open>/Connected\<close>: for instance after a
  connection and an unexpected disconnection, when the store says not connected.
\<close>

theorem connected_path_constant:
  "setup_paths ''/Connected'' = Some (Num 1)
   \<and> setup_paths_orig ''/Connected'' = Some (Num 1)
   \<and> fst (snd (update bad st k)) ''/Connected'' = k ''/Connected''
   \<and> snd (update_orig bad st k) ''/Connected'' = k ''/Connected''
   \<and> dbus (step fl a (Connected_cb rc)) = dbus a
   \<and> dbus (step fl a (Disconnected_cb rc)) = dbus a
   \<and> set_connected st b = st\<lparr>connected := b\<rparr>
   \<and> dbus (run fl init_app evs) ''/Connected'' = Some (Num 1)
   \<and> connected (data_store (run fl init_app [Connected_cb 0, Disconnected_cb 1, Tick {}]))
      = False
   \<and> dbus (run fl init_app [Connected_cb 0, Disconnected_cb 1, Tick {}]) ''/Connected''
      = Some (Num 1)"
proof -
  have a: "setup_paths ''/Connected'' = Some (Num 1)"
    by (simp add: setup_paths_def)
  have b: "setup_paths_orig ''/Connected'' = Some (Num 1)"
    by (simp add: setup_paths_orig_def paths_orig_def)
  have "''/Connected'' \<notin> fst ` set (writes (get_all st))"
    by (simp add: writes_paths)
  then have "snd (update_try bad st k) ''/Connected'' = k ''/Connected''"
    by (rule update_try_other) simp
  then have c: "fst (snd (update bad st k)) ''/Connected'' = k ''/Connected''"
    by (simp add: update_sink)
  have "''/Connected'' \<notin> fst ` set (writes_orig st)"
    by (simp add: writes_orig_paths)
  then have d: "snd (update_orig bad st k) ''/Connected'' = k ''/Connected''"
    by (rule update_orig_other) simp
  have e: "dbus (step fl a (Connected_cb rc)) = dbus a"
    by (simp split: prod.splits)
  have f: "dbus (step fl a (Disconnected_cb rc)) = dbus a"
    by (simp split: prod.splits)
  have g: "set_connected st b = st\<lparr>connected := b\<rparr>"
    by (simp add: set_connected_def)
  have h: "dbus (run fl init_app evs') ''/Connected'' = Some (Num 1)" for evs'
    by (simp add: run_connected_path init_app_def a)
  have i: "connected (data_store (run fl init_app [Connected_cb 0, Disconnected_cb 1, Tick {}]))
             = False"
    by (simp add: run_def init_app_def on_connect_def on_disconnect_def set_connected_def
        split: prod.splits)
  from a b c d e f g h i show ?thesis by blast
qed

subsection \<open>The revision counter\<close>




















subsection \<open>The message handlers\<close>

text \<open>
  What \<open>on_message\<close> does with a payload, for every conversion function \<open>fl\<close>: a payload of
  \<^verbatim>\<open>pvpwrl123\<close> with three parts that all convert sets the three phase powers; a payload
  that does not decode, a payload of one of the three single-value topics that does not
  convert, and a payload of \<^verbatim>\<open>pvpwrl123\<close> with a number of parts other than three leave the
  store as it was.
\<close>

lemma on_message_returns: "fst (on_message fl st topic payload) = Returns ()"
  by (simp add: on_message_def split: prod.splits option.splits)

lemma on_message_undecodable:
  assumes "decode_utf8 payload = None"
  shows "on_message fl st topic payload
         = (Returns (), st, [Error_rec ''Error processing MQTT message''])"
  using assms by (simp add: on_message_def on_message_try_def)

lemma on_message_scalar_rejected:
  assumes "topic \<in> {''ehzmeter/pvpower'', ''ehzmeter/pvtoday'', ''ehzmeter/pvtotal''}"
    and "decode_utf8 payload = Some text" and "fl (strip text) = None"
  shows "on_message fl st topic payload
         = (Returns (), st, [Error_rec ''Error processing MQTT message''])"
  using assms
  by (auto simp add: on_message_def on_message_try_def update_power_def
      update_energy_today_def update_energy_total_def)

lemma on_message_phase_count:
  assumes "decode_utf8 payload = Some text" and "length (split_comma (strip text)) \<noteq> 3"
  shows "on_message fl st ''ehzmeter/pvpwrl123'' payload
         = (Returns (), st, [Error_rec ''Invalid pvpwrl123 format''])"
  using assms by (simp add: on_message_def on_message_try_def)

lemma on_message_phase_valid:
  assumes "decode_utf8 payload = Some text" and "split_comma (strip text) = [p1, p2, p3]"
    and "fl p1 = Some a" and "fl p2 = Some b" and "fl p3 = Some c"
  shows "on_message fl st ''ehzmeter/pvpwrl123'' payload
         = (Returns (), st\<lparr>pow_l1 := a, pow_l2 := b, pow_l3 := c\<rparr>, [])"
  using assms by (simp add: on_message_def on_message_try_def update_phase_powers_def)

lemma on_message_phase_rejected:
  assumes "decode_utf8 payload = Some text" and "split_comma (strip text) = [p1, p2, p3]"
    and "fl p1 = None \<or> fl p2 = None \<or> fl p3 = None"
  shows "snd (snd (on_message fl st ''ehzmeter/pvpwrl123'' payload))
         = [Error_rec ''Failed to parse phase powers'']"
  using assms
  by (auto simp add: on_message_def on_message_try_def update_phase_powers_def
      is_ValueError_def split: option.splits)

lemma on_message_phase_second_rejected:
  assumes "decode_utf8 payload = Some text" and "split_comma (strip text) = [p1, p2, p3]"
    and "fl p1 = Some a" and "fl p2 = None"
  shows "on_message fl st ''ehzmeter/pvpwrl123'' payload
         = (Returns (), st\<lparr>pow_l1 := a\<rparr>, [Error_rec ''Failed to parse phase powers''])"
  using assms
  by (simp add: on_message_def on_message_try_def update_phase_powers_def is_ValueError_def)

lemma on_message_other_topic:
  assumes "decode_utf8 payload = Some text"
    and "topic \<notin> {''ehzmeter/pvpower'', ''ehzmeter/pvtoday'', ''ehzmeter/pvtotal'',
                  ''ehzmeter/pvpwrl123''}"
  shows "on_message fl st topic payload = (Returns (), st, [])"
  using assms by (simp add: on_message_def on_message_try_def)

lemma step_same_but_log:
  assumes "data_store a = data_store b" and "mqtt a = mqtt b" and "dbus a = dbus b"
  shows "data_store (step fl a ev) = data_store (step fl b ev)
         \<and> mqtt (step fl a ev) = mqtt (step fl b ev)
         \<and> dbus (step fl a ev) = dbus (step fl b ev)"
  using assms by (cases ev) (simp_all split: prod.splits)

lemma run_same_but_log:
  assumes "data_store a = data_store b" and "mqtt a = mqtt b" and "dbus a = dbus b"
  shows "data_store (run fl a evs) = data_store (run fl b evs)
         \<and> mqtt (run fl a evs) = mqtt (run fl b evs)
         \<and> dbus (run fl a evs) = dbus (run fl b evs)"
  using assms
proof (induction evs arbitrary: a b)
  case Nil
  then show ?case by (simp add: run_def)
next
  case (Cons ev evs)
  from step_same_but_log [OF Cons.prems, of fl ev] Cons.IH [of "step fl a ev" "step fl b ev"]
  show ?case by (simp add: run_def)
qed

lemma dropped_message_run:
  assumes "on_message fl (data_store a) topic payload = (r, data_store a, lg)"
  shows "data_store (run fl a (Message_cb topic payload # evs)) = data_store (run fl a evs)
         \<and> mqtt (run fl a (Message_cb topic payload # evs)) = mqtt (run fl a evs)
         \<and> dbus (run fl a (Message_cb topic payload # evs)) = dbus (run fl a evs)"
proof -
  let ?b = "step fl a (Message_cb topic payload)"
  from assms have "data_store ?b = data_store a" and "mqtt ?b = mqtt a" and "dbus ?b = dbus a"
    by simp_all
  from run_same_but_log [OF this, of fl evs] show ?thesis
    by (simp add: run_def)
qed

text \<open>
  Claim C1 asks that a payload of \<^verbatim>\<open>pvpwrl123\<close> with a part that is not a number changes
  none of the three phase powers. The code does otherwise at the payload \<^verbatim>\<open>1,x,3\<close>,
  received by the store as constructed: \<open>update_phase_powers\<close> assigns \<open>pow_l1\<close> before
  it converts the second part, so the handler logs the failure and returns, and the store
  holds \<open>pow_l1 = 1\<close> where it held 0. The original variant leaves the same store behind,
  and raises.
\<close>

theorem phase_powers_partial_update:
  "on_message float_plain init_store ''ehzmeter/pvpwrl123'' ''1,x,3''
     = (Returns (), init_store\<lparr>pow_l1 := 1\<rparr>, [Error_rec ''Failed to parse phase powers''])
   \<and> pow_l1 init_store = 0
   \<and> pow_l1 (init_store\<lparr>pow_l1 := 1\<rparr>) = 1
   \<and> on_message_orig float_plain init_store_orig ''ehzmeter/pvpwrl123'' ''1,x,3''
     = (Raises ValueError, init_store_orig\<lparr>pow_l1 := 1\<rparr>)"
  by (simp add: on_message_def on_message_try_def update_phase_powers_def is_ValueError_def
      on_message_orig_def init_store_def text_defs float_plain_defs)

text \<open>
  Claim C4, as stated, fails for the handler of the original variant: it has no
  \<^verbatim>\<open>try\<close>, and a payload that \<^verbatim>\<open>float\<close> rejects, or one of \<^verbatim>\<open>pvpwrl123\<close> with two parts,
  makes it raise \<^verbatim>\<open>ValueError\<close>.
\<close>

theorem on_message_orig_raises:
  "on_message_orig float_plain init_store_orig ''ehzmeter/pvpower'' ''abc''
     = (Raises ValueError, init_store_orig)
   \<and> on_message_orig float_plain init_store_orig ''ehzmeter/pvpwrl123'' ''1,2''
     = (Raises ValueError, init_store_orig)"
  by (simp add: on_message_orig_def text_defs float_plain_defs)

text \<open>
  Claim C4, amended. The handler of the refactored variant returns, for every topic, every
  payload and every store. A payload that does not decode, on any topic, a payload of
  \<^verbatim>\<open>pvpower\<close>, \<^verbatim>\<open>pvtoday\<close> or \<^verbatim>\<open>pvtotal\<close> that does not convert, and a payload of
  \<^verbatim>\<open>pvpwrl123\<close> with a number of parts other than three are logged and leave the store
  unchanged; a payload of \<^verbatim>\<open>pvpwrl123\<close> with three parts one of which does not convert is
  logged. Whenever the handler leaves the store unchanged, the events that follow find the
  store, the client and the sink as if the message had not arrived. The handler of the
  original variant raises instead: \<^verbatim>\<open>UnicodeDecodeError\<close> on a payload that does not decode,
  \<^verbatim>\<open>ValueError\<close> on a payload of a single-value topic that does not convert.
\<close>

theorem on_message_never_raises:
  "fst (on_message fl st topic payload) = Returns ()
   \<and> (decode_utf8 payload = None
      \<longrightarrow> on_message fl st topic payload
          = (Returns (), st, [Error_rec ''Error processing MQTT message'']))
   \<and> (topic \<in> {''ehzmeter/pvpower'', ''ehzmeter/pvtoday'', ''ehzmeter/pvtotal''}
        \<and> decode_utf8 payload = Some text \<and> fl (strip text) = None
      \<longrightarrow> on_message fl st topic payload
          = (Returns (), st, [Error_rec ''Error processing MQTT message'']))
   \<and> (decode_utf8 payload = Some text \<and> length (split_comma (strip text)) \<noteq> 3
      \<longrightarrow> on_message fl st ''ehzmeter/pvpwrl123'' payload
          = (Returns (), st, [Error_rec ''Invalid pvpwrl123 format'']))
   \<and> (decode_utf8 payload = Some text \<and> split_comma (strip text) = [p1, p2, p3]
        \<and> (fl p1 = None \<or> fl p2 = None \<or> fl p3 = None)
      \<longrightarrow> snd (snd (on_message fl st ''ehzmeter/pvpwrl123'' payload))
          = [Error_rec ''Failed to parse phase powers''])
   \<and> (fst (snd (on_message fl (data_store a) topic payload)) = data_store a
      \<longrightarrow> data_store (run fl a (Message_cb topic payload # evs)) = data_store (run fl a evs)
        \<and> mqtt (run fl a (Message_cb topic payload # evs)) = mqtt (run fl a evs)
        \<and> dbus (run fl a (Message_cb topic payload # evs)) = dbus (run fl a evs))
   \<and> (decode_utf8 payload = None
      \<longrightarrow> on_message_orig fl st topic payload = (Raises UnicodeDecodeError, st))
   \<and> (topic \<in> {''ehzmeter/pvpower'', ''ehzmeter/pvtoday'', ''ehzmeter/pvtotal''}
        \<and> decode_utf8 payload = Some text \<and> fl text = None
      \<longrightarrow> on_message_orig fl st topic payload = (Raises ValueError, st))"
proof -
  have c1: "fst (on_message fl st topic payload) = Returns ()"
    by (rule on_message_returns)
  have c2: "decode_utf8 payload = None
      \<longrightarrow> on_message fl st topic payload
          = (Returns (), st, [Error_rec ''Error processing MQTT message''])"
    using on_message_undecodable [of payload fl st topic] by (rule impI)
  have c3: "topic \<in> {''ehzmeter/pvpower'', ''ehzmeter/pvtoday'', ''ehzmeter/pvtotal''}
        \<and> decode_utf8 payload = Some text \<and> fl (strip text) = None
      \<longrightarrow> on_message fl st topic payload
          = (Returns (), st, [Error_rec ''Error processing MQTT message''])"
  proof (intro impI, elim conjE)
    assume "topic \<in> {''ehzmeter/pvpower'', ''ehzmeter/pvtoday'', ''ehzmeter/pvtotal''}"
      and "decode_utf8 payload = Some text" and "fl (strip text) = None"
    then show "on_message fl st topic payload
          = (Returns (), st, [Error_rec ''Error processing MQTT message''])"
      by (rule on_message_scalar_rejected)
  qed
  have c4: "decode_utf8 payload = Some text \<and> length (split_comma (strip text)) \<noteq> 3
      \<longrightarrow> on_message fl st ''ehzmeter/pvpwrl123'' payload
          = (Returns (), st, [Error_rec ''Invalid pvpwrl123 format''])"
  proof (intro impI, elim conjE)
    assume "decode_utf8 payload = Some text" and "length (split_comma (strip text)) \<noteq> 3"
    then show "on_message fl st ''ehzmeter/pvpwrl123'' payload
          = (Returns (), st, [Error_rec ''Invalid pvpwrl123 format''])"
      by (rule on_message_phase_count)
  qed
  have c5: "decode_utf8 payload = Some text \<and> split_comma (strip text) = [p1, p2, p3]
        \<and> (fl p1 = None \<or> fl p2 = None \<or> fl p3 = None)
      \<longrightarrow> snd (snd (on_message fl st ''ehzmeter/pvpwrl123'' payload))
          = [Error_rec ''Failed to parse phase powers'']"
  proof (intro impI, elim conjE)
    assume "decode_utf8 payload = Some text" and "split_comma (strip text) = [p1, p2, p3]"
      and "fl p1 = None \<or> fl p2 = None \<or> fl p3 = None"
    then show "snd (snd (on_message fl st ''ehzmeter/pvpwrl123'' payload))
          = [Error_rec ''Failed to parse phase powers'']"
      by (rule on_message_phase_rejected)
  qed
  have c6: "fst (snd (on_message fl (data_store a) topic payload)) = data_store a
      \<longrightarrow> data_store (run fl a (Message_cb topic payload # evs)) = data_store (run fl a evs)
        \<and> mqtt (run fl a (Message_cb topic payload # evs)) = mqtt (run fl a evs)
        \<and> dbus (run fl a (Message_cb topic payload # evs)) = dbus (run fl a evs)"
  proof
    assume same: "fst (snd (on_message fl (data_store a) topic payload)) = data_store a"
    obtain r st' lg where "on_message fl (data_store a) topic payload = (r, st', lg)"
      by (cases "on_message fl (data_store a) topic payload")
    with same have "on_message fl (data_store a) topic payload = (r, data_store a, lg)"
      by simp
    then show "data_store (run fl a (Message_cb topic payload # evs)) = data_store (run fl a evs)
        \<and> mqtt (run fl a (Message_cb topic payload # evs)) = mqtt (run fl a evs)
        \<and> dbus (run fl a (Message_cb topic payload # evs)) = dbus (run fl a evs)"
      by (rule dropped_message_run)
  qed
  have c7: "decode_utf8 payload = None
      \<longrightarrow> on_message_orig fl st topic payload = (Raises UnicodeDecodeError, st)"
    by (simp add: on_message_orig_def)
  have c8: "topic \<in> {''ehzmeter/pvpower'', ''ehzmeter/pvtoday'', ''ehzmeter/pvtotal''}
        \<and> decode_utf8 payload = Some text \<and> fl text = None
      \<longrightarrow> on_message_orig fl st topic payload = (Raises ValueError, st)"
    by (auto simp add: on_message_orig_def)
  show ?thesis
    by (intro conjI c1 c2 c3 c4 c5 c6 c7 c8)
qed

text \<open>
  The hypotheses of the theorem hold at an undecodable payload, at \<^verbatim>\<open>abc\<close> on
  \<^verbatim>\<open>pvpower\<close>, at \<^verbatim>\<open>1,2\<close> and at \<^verbatim>\<open>1,x,3\<close> on \<^verbatim>\<open>pvpwrl123\<close>.
\<close>

theorem on_message_never_raises_witness:
  "decode_utf8 [CHR 0xFF] = None
   \<and> on_message float_plain init_store ''ehzmeter/pvtotal'' [CHR 0xFF]
       = (Returns (), init_store, [Error_rec ''Error processing MQTT message''])
   \<and> ''ehzmeter/pvpower'' \<in> {''ehzmeter/pvpower'', ''ehzmeter/pvtoday'', ''ehzmeter/pvtotal''}
   \<and> decode_utf8 ''abc'' = Some ''abc'' \<and> float_plain (strip ''abc'') = None
   \<and> on_message float_plain init_store ''ehzmeter/pvpower'' ''abc''
       = (Returns (), init_store, [Error_rec ''Error processing MQTT message''])
   \<and> decode_utf8 ''1,2'' = Some ''1,2'' \<and> length (split_comma (strip ''1,2'')) \<noteq> 3
   \<and> on_message float_plain init_store ''ehzmeter/pvpwrl123'' ''1,2''
       = (Returns (), init_store, [Error_rec ''Invalid pvpwrl123 format''])
   \<and> decode_utf8 ''1,x,3'' = Some ''1,x,3''
   \<and> split_comma (strip ''1,x,3'') = [''1'', ''x'', ''3''] \<and> float_plain ''x'' = None
   \<and> snd (snd (on_message float_plain init_store ''ehzmeter/pvpwrl123'' ''1,x,3''))
       = [Error_rec ''Failed to parse phase powers'']
   \<and> fst (snd (on_message float_plain (data_store init_app) ''ehzmeter/pvpower'' ''abc''))
       = data_store init_app
   \<and> data_store (run float_plain init_app
        [Message_cb ''ehzmeter/pvpower'' ''abc'', Message_cb ''ehzmeter/pvpower'' ''7''])
       = data_store (run float_plain init_app [Message_cb ''ehzmeter/pvpower'' ''7''])
   \<and> on_message_orig float_plain init_store ''ehzmeter/pvtotal'' [CHR 0xFF]
       = (Raises UnicodeDecodeError, init_store)
   \<and> float_plain ''abc'' = None
   \<and> on_message_orig float_plain init_store ''ehzmeter/pvpower'' ''abc''
       = (Raises ValueError, init_store)"
proof -
  have d1: "decode_utf8 [CHR 0xFF] = None"
    by (simp add: text_defs)
  have d2: "decode_utf8 ''abc'' = Some ''abc''" and f2: "float_plain (strip ''abc'') = None"
    by (simp_all add: text_defs float_plain_defs)
  have d3: "decode_utf8 ''1,2'' = Some ''1,2''" and l3: "length (split_comma (strip ''1,2'')) \<noteq> 3"
    by (simp_all add: text_defs)
  have d4: "decode_utf8 ''1,x,3'' = Some ''1,x,3''"
    and s4: "split_comma (strip ''1,x,3'') = [''1'', ''x'', ''3'']"
    and f4: "float_plain ''x'' = None"
    by (simp_all add: text_defs float_plain_defs)
  have t: "''ehzmeter/pvpower'' \<in> {''ehzmeter/pvpower'', ''ehzmeter/pvtoday'', ''ehzmeter/pvtotal''}"
    by simp
  note thm1 = on_message_never_raises
    [of float_plain init_store "''ehzmeter/pvtotal''" "[CHR 0xFF]"]
  note thm2 = on_message_never_raises
    [of float_plain init_store "''ehzmeter/pvpower''" "''abc''" "''abc''"]
  note thm3 = on_message_never_raises [of float_plain init_store _ "''1,2''" "''1,2''"]
  note thm4 = on_message_never_raises
    [of float_plain init_store _ "''1,x,3''" "''1,x,3''" "''1''" "''x''" "''3''"]
  note thm5 = on_message_never_raises
    [of float_plain _ "''ehzmeter/pvpower''" "''abc''" _ _ _ _ init_app
      "[Message_cb ''ehzmeter/pvpower'' ''7'']"]
  have 1: "on_message float_plain init_store ''ehzmeter/pvtotal'' [CHR 0xFF]
       = (Returns (), init_store, [Error_rec ''Error processing MQTT message''])"
    by (rule thm1 [THEN conjunct2, THEN conjunct1, THEN mp, OF d1])
  have 2: "on_message float_plain init_store ''ehzmeter/pvpower'' ''abc''
       = (Returns (), init_store, [Error_rec ''Error processing MQTT message''])"
    by (rule thm2 [THEN conjunct2, THEN conjunct2, THEN conjunct1, THEN mp,
          OF conjI [OF t conjI [OF d2 f2]]])
  have 3: "on_message float_plain init_store ''ehzmeter/pvpwrl123'' ''1,2''
       = (Returns (), init_store, [Error_rec ''Invalid pvpwrl123 format''])"
    by (rule thm3 [THEN conjunct2, THEN conjunct2, THEN conjunct2, THEN conjunct1, THEN mp,
          OF conjI [OF d3 l3]])
  from f4 have "float_plain ''1'' = None \<or> float_plain ''x'' = None \<or> float_plain ''3'' = None"
    by simp
  then have 4: "snd (snd (on_message float_plain init_store ''ehzmeter/pvpwrl123'' ''1,x,3''))
       = [Error_rec ''Failed to parse phase powers'']"
    by (rule thm4 [THEN conjunct2, THEN conjunct2, THEN conjunct2, THEN conjunct2,
          THEN conjunct1, THEN mp, OF conjI [OF d4 conjI [OF s4]]])
  from 2 have 5: "fst (snd (on_message float_plain (data_store init_app) ''ehzmeter/pvpower'' ''abc''))
       = data_store init_app"
    by (simp add: init_app_def)
  have 6: "data_store (run float_plain init_app
        [Message_cb ''ehzmeter/pvpower'' ''abc'', Message_cb ''ehzmeter/pvpower'' ''7''])
       = data_store (run float_plain init_app [Message_cb ''ehzmeter/pvpower'' ''7''])"
    by (rule thm5 [THEN conjunct2, THEN conjunct2, THEN conjunct2, THEN conjunct2,
          THEN conjunct2, THEN conjunct1, THEN mp, OF 5, THEN conjunct1])
  have 7: "on_message_orig float_plain init_store ''ehzmeter/pvtotal'' [CHR 0xFF]
       = (Raises UnicodeDecodeError, init_store)"
    by (rule thm1 [THEN conjunct2, THEN conjunct2, THEN conjunct2, THEN conjunct2,
          THEN conjunct2, THEN conjunct2, THEN conjunct1, THEN mp, OF d1])
  have f8: "float_plain ''abc'' = None"
    by (simp add: text_defs float_plain_defs)
  have 8: "on_message_orig float_plain init_store ''ehzmeter/pvpower'' ''abc''
       = (Raises ValueError, init_store)"
    by (rule thm2 [THEN conjunct2, THEN conjunct2, THEN conjunct2, THEN conjunct2,
          THEN conjunct2, THEN conjunct2, THEN conjunct2, THEN mp,
          OF conjI [OF t conjI [OF d2 f8]]])
  show ?thesis
    by (intro conjI d1 1 t d2 f2 2 d3 l3 3 d4 s4 f4 4 5 6 7 f8 8)
qed

subsection \<open>A write that the sink refuses\<close>

text \<open>
  The writes of a cycle that are made are those before the first path that is not
  writable.
\<close>

lemma sink_set_writable:
  "writable bad k path \<Longrightarrow> sink_set bad k path v = (None, k(path \<mapsto> v))"
  by (simp add: sink_set_def writable_def)

lemma sink_set_not_writable:
  "\<not> writable bad k path \<Longrightarrow> \<exists>e. sink_set bad k path v = (Some e, k)"
  by (auto simp add: sink_set_def writable_def)

lemma writable_after_write:
  "k path \<noteq> None \<Longrightarrow> writable bad (k(path \<mapsto> v)) = writable bad k"
  by (auto simp add: writable_def fun_eq_iff)

lemma write_seq_prefix:
  "snd (write_seq bad k ws) = written k (takeWhile (\<lambda>pv. writable bad k (fst pv)) ws)"
proof (induction ws arbitrary: k)
  case Nil
  show ?case by simp
next
  case (Cons w ws)
  obtain path v where w: "w = (path, v)" by (cases w)
  show ?case
  proof (cases "writable bad k path")
    case True
    then have "k path \<noteq> None" by (simp add: writable_def)
    then have same: "writable bad (k(path \<mapsto> v)) = writable bad k"
      by (rule writable_after_write)
    have "snd (write_seq bad (k(path \<mapsto> v)) ws)
          = written (k(path \<mapsto> v)) (takeWhile (\<lambda>pv. writable bad k (fst pv)) ws)"
      using Cons.IH [of "k(path \<mapsto> v)"] unfolding same .
    with w True sink_set_writable [OF True, of v] show ?thesis by simp
  next
    case False
    from sink_set_not_writable [OF False, of v]
    obtain e where "sink_set bad k path v = (Some e, k)" ..
    with w False show ?thesis by simp
  qed
qed

lemma write_seq_fails:
  "(fst (write_seq bad k ws) = None) = (takeWhile (\<lambda>pv. writable bad k (fst pv)) ws = ws)"
proof (induction ws arbitrary: k)
  case Nil
  show ?case by simp
next
  case (Cons w ws)
  obtain path v where w: "w = (path, v)" by (cases w)
  show ?case
  proof (cases "writable bad k path")
    case True
    then have "k path \<noteq> None" by (simp add: writable_def)
    then have same: "writable bad (k(path \<mapsto> v)) = writable bad k"
      by (rule writable_after_write)
    have "(fst (write_seq bad (k(path \<mapsto> v)) ws) = None)
          = (takeWhile (\<lambda>pv. writable bad k (fst pv)) ws = ws)"
      using Cons.IH [of "k(path \<mapsto> v)"] unfolding same .
    with w True sink_set_writable [OF True, of v] show ?thesis by simp
  next
    case False
    from sink_set_not_writable [OF False, of v]
    obtain e where "sink_set bad k path v = (Some e, k)" ..
    with w False show ?thesis by simp
  qed
qed

lemma update_returns_True: "fst (update bad st k) = Returns True"
  by (simp add: update_def split: prod.splits option.splits)

lemma update_write_refused:
  assumes "takeWhile (\<lambda>pv. writable bad k (fst pv)) (writes (get_all st)) \<noteq> writes (get_all st)"
  shows "update bad st k
         = (Returns True,
            written k (takeWhile (\<lambda>pv. writable bad k (fst pv)) (writes (get_all st))),
            [Error_rec ''Error updating DBus paths''])"
proof (cases "write_seq bad k (writes (get_all st))")
  case (Pair e k')
  from assms write_seq_fails [of bad k "writes (get_all st)"] Pair
  obtain err where e: "e = Some err" by (cases e) auto
  from write_seq_prefix [of bad k "writes (get_all st)"] Pair
  have "k' = written k (takeWhile (\<lambda>pv. writable bad k (fst pv)) (writes (get_all st)))"
    by simp
  with Pair e show ?thesis by (simp add: update_def update_try_def)
qed

lemma update_all_written:
  assumes all: "takeWhile (\<lambda>pv. writable bad k (fst pv)) (writes (get_all st)) = writes (get_all st)"
    and idx: "k ''/UpdateIndex'' = Some (Num i)" and ifree: "''/UpdateIndex'' \<notin> bad"
  shows "update bad st k
         = (Returns True,
            (written k (writes (get_all st)))(''/UpdateIndex'' \<mapsto> Num (py_mod (i + 1) 256)),
            [])"
proof (cases "write_seq bad k (writes (get_all st))")
  case (Pair e k')
  from all write_seq_fails [of bad k "writes (get_all st)"] Pair have e: "e = None" by simp
  from write_seq_prefix [of bad k "writes (get_all st)"] Pair all
  have k': "k' = written k (writes (get_all st))" by simp
  have "''/UpdateIndex'' \<notin> fst ` set (writes (get_all st))"
    by (simp add: writes_paths)
  from write_seq_other [OF this, of bad k] Pair idx
  have "k' ''/UpdateIndex'' = Some (Num i)" by simp
  with ifree have "update_index bad k' = (None, k'(''/UpdateIndex'' \<mapsto> Num (py_mod (i + 1) 256)))"
    by (simp add: update_index_def sink_set_def)
  with Pair e k' show ?thesis by (simp add: update_def update_try_def)
qed

lemma written_other: "p \<notin> fst ` set ws \<Longrightarrow> written k ws p = k p"
  by (induction ws arbitrary: k) auto

lemmas eval_defs = update_def update_try_def update_index_def sink_set_def writes_def
  phase_writes_def get_all_def e_totkwh_def py_round1_def round_half_even_def py_mod_def
  setup_paths_def init_store_def config_defs

text \<open>
  Claim C3, as stated, fails. Let the bus refuse \<^verbatim>\<open>/Ac/Energy/Forward\<close>, the second
  path of the cycle of the refactored variant, while the store holds 230 for the first
  phase. The cycle would write 230 to \<^verbatim>\<open>/Ac/L1/Power\<close>, a path the bus does not refuse;
  after the cycle that path still holds 0 and the revision counter is still 0: the
  remaining paths are not written. The cycle of the original variant raises.
\<close>

theorem refused_write_ends_cycle:
  "map_of (writes (get_all (init_store\<lparr>pow_l1 := 230\<rparr>))) ''/Ac/L1/Power'' = Some (Num 230)
   \<and> ''/Ac/L1/Power'' \<notin> {''/Ac/Energy/Forward''}
   \<and> fst (snd (update {''/Ac/Energy/Forward''} (init_store\<lparr>pow_l1 := 230\<rparr>) setup_paths))
       ''/Ac/L1/Power'' = Some (Num 0)
   \<and> fst (snd (update {''/Ac/Energy/Forward''} (init_store\<lparr>pow_l1 := 230\<rparr>) setup_paths))
       ''/UpdateIndex'' = Some (Num 0)
   \<and> fst (update_orig {''/Ac/Energy/Forward''} (init_store_orig\<lparr>pow_l1 := 230\<rparr>)
        setup_paths_orig) = Raises DBusException"
  by (simp add: eval_defs update_orig_def writes_orig_def e_totkwh_orig_def
      setup_paths_orig_def paths_orig_def init_store_orig_def)

text \<open>
  Claim C3, amended. The cycle of the refactored variant returns \<open>True\<close> in every case.
  When a write fails, the cycle ends there: the sink holds the writes made before the
  failing one and nothing else has changed (the failing path, the paths after it and the
  revision counter keep their values), and one error is logged. When no write fails and the
  revision counter can be read and written, every path of the cycle holds its new value,
  the counter has advanced, and nothing is logged. The cycle of the original variant raises
  at the first write that fails, with the writes before it made.
\<close>

theorem update_always_returns_True:
  "fst (update bad st k) = Returns True
   \<and> (takeWhile (\<lambda>pv. writable bad k (fst pv)) (writes (get_all st)) \<noteq> writes (get_all st)
      \<longrightarrow> update bad st k
          = (Returns True,
             written k (takeWhile (\<lambda>pv. writable bad k (fst pv)) (writes (get_all st))),
             [Error_rec ''Error updating DBus paths'']))
   \<and> (takeWhile (\<lambda>pv. writable bad k (fst pv)) (writes (get_all st)) \<noteq> writes (get_all st)
        \<and> p \<notin> fst ` set (takeWhile (\<lambda>pv. writable bad k (fst pv)) (writes (get_all st)))
      \<longrightarrow> fst (snd (update bad st k)) p = k p)
   \<and> (takeWhile (\<lambda>pv. writable bad k (fst pv)) (writes (get_all st)) = writes (get_all st)
        \<and> k ''/UpdateIndex'' = Some (Num i) \<and> ''/UpdateIndex'' \<notin> bad
      \<longrightarrow> update bad st k
          = (Returns True,
             (written k (writes (get_all st)))(''/UpdateIndex'' \<mapsto> Num (py_mod (i + 1) 256)),
             []))
   \<and> (takeWhile (\<lambda>pv. writable bad k (fst pv)) (writes_orig st) \<noteq> writes_orig st
      \<longrightarrow> (\<exists>e. update_orig bad st k
               = (Raises e,
                  written k (takeWhile (\<lambda>pv. writable bad k (fst pv)) (writes_orig st)))))"
proof -
  let ?ws = "writes (get_all st)"
  let ?ok = "takeWhile (\<lambda>pv. writable bad k (fst pv)) ?ws"
  have c1: "fst (update bad st k) = Returns True"
    by (rule update_returns_True)
  have c2: "?ok \<noteq> ?ws
      \<longrightarrow> update bad st k = (Returns True, written k ?ok, [Error_rec ''Error updating DBus paths''])"
    using update_write_refused [of bad k st] by (rule impI)
  have c3: "?ok \<noteq> ?ws \<and> p \<notin> fst ` set ?ok \<longrightarrow> fst (snd (update bad st k)) p = k p"
  proof (intro impI, elim conjE)
    assume "?ok \<noteq> ?ws" and other: "p \<notin> fst ` set ?ok"
    then have "fst (snd (update bad st k)) = written k ?ok"
      by (simp add: update_write_refused)
    with written_other [OF other, of k] show "fst (snd (update bad st k)) p = k p"
      by simp
  qed
  have c4: "?ok = ?ws \<and> k ''/UpdateIndex'' = Some (Num i) \<and> ''/UpdateIndex'' \<notin> bad
      \<longrightarrow> update bad st k
          = (Returns True, (written k ?ws)(''/UpdateIndex'' \<mapsto> Num (py_mod (i + 1) 256)), [])"
  proof (intro impI, elim conjE)
    assume "?ok = ?ws" and "k ''/UpdateIndex'' = Some (Num i)" and "''/UpdateIndex'' \<notin> bad"
    then show "update bad st k
          = (Returns True, (written k ?ws)(''/UpdateIndex'' \<mapsto> Num (py_mod (i + 1) 256)), [])"
      by (rule update_all_written)
  qed
  have c5: "takeWhile (\<lambda>pv. writable bad k (fst pv)) (writes_orig st) \<noteq> writes_orig st
      \<longrightarrow> (\<exists>e. update_orig bad st k
               = (Raises e,
                  written k (takeWhile (\<lambda>pv. writable bad k (fst pv)) (writes_orig st))))"
  proof
    assume refused: "takeWhile (\<lambda>pv. writable bad k (fst pv)) (writes_orig st) \<noteq> writes_orig st"
    obtain e k' where w: "write_seq bad k (writes_orig st) = (e, k')"
      by (cases "write_seq bad k (writes_orig st)")
    from refused write_seq_fails [of bad k "writes_orig st"] w
    obtain err where e: "e = Some err" by (cases e) auto
    from write_seq_prefix [of bad k "writes_orig st"] w
    have "k' = written k (takeWhile (\<lambda>pv. writable bad k (fst pv)) (writes_orig st))"
      by simp
    with w e have "update_orig bad st k
               = (Raises err,
                  written k (takeWhile (\<lambda>pv. writable bad k (fst pv)) (writes_orig st)))"
      by (simp add: update_orig_def)
    then show "\<exists>e. update_orig bad st k
               = (Raises e,
                  written k (takeWhile (\<lambda>pv. writable bad k (fst pv)) (writes_orig st)))" ..
  qed
  show ?thesis
    by (intro conjI c1 c2 c3 c4 c5)
qed

text \<open>
  The hypotheses of the theorem hold when the bus refuses \<^verbatim>\<open>/Ac/Energy/Forward\<close>, in
  either variant, and when it refuses nothing.
\<close>

lemma refused_prefix:
  "takeWhile (\<lambda>pv. writable {''/Ac/Energy/Forward''} setup_paths (fst pv))
     (writes (get_all (init_store\<lparr>pow_l1 := 230\<rparr>))) = [(''/Ac/Power'', Num 0)]"
  by (simp add: writable_def setup_paths_def writes_def phase_writes_def get_all_def
      init_store_def py_round1_def round_half_even_def)

lemma nothing_refused:
  "takeWhile (\<lambda>pv. writable {} setup_paths (fst pv)) (writes (get_all init_store))
   = writes (get_all init_store)"
  by (simp add: writable_def setup_paths_def writes_def phase_writes_def)

theorem update_always_returns_True_witness:
  "takeWhile (\<lambda>pv. writable {''/Ac/Energy/Forward''} setup_paths (fst pv))
      (writes (get_all (init_store\<lparr>pow_l1 := 230\<rparr>)))
     \<noteq> writes (get_all (init_store\<lparr>pow_l1 := 230\<rparr>))
   \<and> update {''/Ac/Energy/Forward''} (init_store\<lparr>pow_l1 := 230\<rparr>) setup_paths
     = (Returns True, written setup_paths [(''/Ac/Power'', Num 0)],
        [Error_rec ''Error updating DBus paths''])
   \<and> ''/Ac/L1/Power'' \<notin> fst ` set [(''/Ac/Power'', Num (0::real))]
   \<and> fst (snd (update {''/Ac/Energy/Forward''} (init_store\<lparr>pow_l1 := 230\<rparr>) setup_paths))
       ''/Ac/L1/Power'' = setup_paths ''/Ac/L1/Power''
   \<and> takeWhile (\<lambda>pv. writable {} setup_paths (fst pv)) (writes (get_all init_store))
     = writes (get_all init_store)
   \<and> setup_paths ''/UpdateIndex'' = Some (Num 0) \<and> ''/UpdateIndex'' \<notin> ({} :: string set)
   \<and> update {} init_store setup_paths
     = (Returns True,
        (written setup_paths (writes (get_all init_store)))(''/UpdateIndex'' \<mapsto> Num 1), [])
   \<and> takeWhile (\<lambda>pv. writable {''/Ac/Energy/Forward''} setup_paths_orig (fst pv))
        (writes_orig init_store_orig) \<noteq> writes_orig init_store_orig
   \<and> (\<exists>e. update_orig {''/Ac/Energy/Forward''} init_store_orig setup_paths_orig
          = (Raises e, setup_paths_orig))"
proof -
  let ?st = "init_store\<lparr>pow_l1 := 230\<rparr>"
  let ?bad = "{''/Ac/Energy/Forward''}"
  note thm1 = update_always_returns_True [of ?bad ?st setup_paths "''/Ac/L1/Power''"]
  note thm2 = update_always_returns_True [of "{}" init_store setup_paths _ 0]
  have h1: "takeWhile (\<lambda>pv. writable ?bad setup_paths (fst pv)) (writes (get_all ?st))
            \<noteq> writes (get_all ?st)"
    by (simp add: refused_prefix) (simp add: writes_def)
  have h2: "''/Ac/L1/Power'' \<notin> fst ` set [(''/Ac/Power'', Num (0::real))]"
    by simp
  have h2': "''/Ac/L1/Power''
      \<notin> fst ` set (takeWhile (\<lambda>pv. writable ?bad setup_paths (fst pv)) (writes (get_all ?st)))"
    unfolding refused_prefix by (rule h2)
  have h3: "setup_paths ''/UpdateIndex'' = Some (Num 0)"
    by (simp add: setup_paths_def)
  have h4: "''/UpdateIndex'' \<notin> ({} :: string set)"
    by simp
  have 1: "update ?bad ?st setup_paths
     = (Returns True, written setup_paths [(''/Ac/Power'', Num 0)],
        [Error_rec ''Error updating DBus paths''])"
    using thm1 [THEN conjunct2, THEN conjunct1, THEN mp, OF h1]
    by (simp only: refused_prefix)
  have 2: "fst (snd (update ?bad ?st setup_paths)) ''/Ac/L1/Power'' = setup_paths ''/Ac/L1/Power''"
    by (rule thm1 [THEN conjunct2, THEN conjunct2, THEN conjunct1, THEN mp,
          OF conjI [OF h1 h2']])
  have 3: "update {} init_store setup_paths
     = (Returns True,
        (written setup_paths (writes (get_all init_store)))(''/UpdateIndex'' \<mapsto> Num 1), [])"
    using thm2 [THEN conjunct2, THEN conjunct2, THEN conjunct2, THEN conjunct1, THEN mp,
          OF conjI [OF nothing_refused conjI [OF h3 h4]]]
    by (simp add: py_mod_def)
  have p5: "takeWhile (\<lambda>pv. writable ?bad setup_paths_orig (fst pv))
        (writes_orig init_store_orig) = []"
    by (simp add: writable_def writes_orig_def)
  have h5: "takeWhile (\<lambda>pv. writable ?bad setup_paths_orig (fst pv))
        (writes_orig init_store_orig) \<noteq> writes_orig init_store_orig"
    unfolding p5 by (simp add: writes_orig_def)
  have 5: "\<exists>e. update_orig ?bad init_store_orig setup_paths_orig = (Raises e, setup_paths_orig)"
    using update_always_returns_True [of ?bad init_store_orig setup_paths_orig,
          THEN conjunct2, THEN conjunct2, THEN conjunct2, THEN conjunct2, THEN mp, OF h5]
    unfolding p5 by simp
  show ?thesis
    by (intro conjI h1 1 h2 2 nothing_refused h3 h4 3 h5 5)
qed

subsection \<open>The two variants of the publish cycle\<close>

















end
